theory Spec2Isabelle
  imports Complex_Main "HOL-Library.Word" "HOL-Library.Sublist"
begin

section \<open>Python values used by subliminal/subtitle.py\<close>

text \<open>
  \<^verbatim>\<open>bytes\<close> is a list of 8-bit words. \<^verbatim>\<open>str\<close> holding decoded subtitle text is a
  list of Unicode code points; names (encodings, formats, paths, ids) are HOL strings.
  An optional value (\<^verbatim>\<open>X | None\<close>) is an \<open>option\<close>.
\<close>

type_synonym byte = "8 word"
type_synonym bytes = "byte list"
type_synonym str = "nat list"
type_synonym fps = real

text \<open>
  The exception classes that reach this module. A \<^verbatim>\<open>try/except C\<close> of the source is a
  case distinction on the class; \<^verbatim>\<open>except Exception\<close> catches all of them.
  \<^verbatim>\<open>UnicodeDecodeError\<close> and \<^verbatim>\<open>UnicodeEncodeError\<close> are subclasses of \<^verbatim>\<open>UnicodeError\<close>,
  itself a subclass of \<^verbatim>\<open>ValueError\<close>; the handlers of the module name the two subclasses
  only. A value of \<open>exn\<close> is the class an exception is a direct instance of, so a handler
  catches exactly the classes it lists.
\<close>

datatype exn =
    TypeError
  | LookupError
  | ValueError
  | UnicodeError
  | UnicodeDecodeError
  | UnicodeEncodeError
  | UnknownFPSError
  | OtherException

section \<open>Module constants\<close>

text \<open>\<^verbatim>\<open>FORMAT_TO_EXTENSION\<close> (lines 24-32), a dict.\<close>

definition FORMAT_TO_EXTENSION :: "string \<rightharpoonup> string" where
  "FORMAT_TO_EXTENSION = map_of
     [(''srt'', ''.srt''),
      (''ass'', ''.ass''),
      (''ssa'', ''.ssa''),
      (''microdvd'', ''.sub''),
      (''mpl2'', ''.mpl''),
      (''tmp'', ''.txt''),
      (''vtt'', ''.vtt'')]"

text \<open>The byte-order marks of Python's \<^verbatim>\<open>codecs\<close> module (imported at line 8).\<close>

definition BOM_UTF8 :: bytes where "BOM_UTF8 = [0xEF, 0xBB, 0xBF]"
definition BOM_UTF16_BE :: bytes where "BOM_UTF16_BE = [0xFE, 0xFF]"
definition BOM_UTF16_LE :: bytes where "BOM_UTF16_LE = [0xFF, 0xFE]"
definition BOM_UTF32_BE :: bytes where "BOM_UTF32_BE = [0x00, 0x00, 0xFE, 0xFF]"
definition BOM_UTF32_LE :: bytes where "BOM_UTF32_LE = [0xFF, 0xFE, 0x00, 0x00]"

text \<open>\<^verbatim>\<open>BOMS\<close> (lines 38-44), an ordered tuple of pairs.\<close>

definition BOMS :: "(bytes \<times> string) list" where
  "BOMS =
     [(BOM_UTF8, ''utf-8-sig''),
      (BOM_UTF32_BE, ''utf-32-be''),
      (BOM_UTF32_LE, ''utf-32-le''),
      (BOM_UTF16_BE, ''utf-16-be''),
      (BOM_UTF16_LE, ''utf-16-le'')]"

section \<open>LanguageType\<close>

datatype LanguageType = UNKNOWN | FORCED | NORMAL | HEARING_IMPAIRED

text \<open>
  \<^verbatim>\<open>LanguageType.from_flags\<close> (lines 56-69). \<^verbatim>\<open>if hearing_impaired:\<close> is truthiness of
  a \<^verbatim>\<open>bool | None\<close>, so it holds for \<^verbatim>\<open>True\<close> only; \<^verbatim>\<open>x is False\<close> holds for
  \<^verbatim>\<open>False\<close> only.
\<close>

definition from_flags :: "bool option \<Rightarrow> bool option \<Rightarrow> LanguageType" where
  "from_flags hearing_impaired forced =
     (if hearing_impaired = Some True then HEARING_IMPAIRED
      else if forced = Some True then FORCED
      else if hearing_impaired = Some False \<or> forced = Some False then NORMAL
      else UNKNOWN)"

definition is_hearing_impaired :: "LanguageType \<Rightarrow> bool option" where
  "is_hearing_impaired self =
     (if self = HEARING_IMPAIRED then Some True
      else if self = UNKNOWN then None
      else Some False)"

definition is_forced :: "LanguageType \<Rightarrow> bool option" where
  "is_forced self =
     (if self = FORCED then Some True
      else if self = UNKNOWN then None
      else Some False)"

section \<open>Byte-order marks\<close>

text \<open>
  \<^verbatim>\<open>find_encoding_with_bom\<close> (lines 628-633):
  \<^verbatim>\<open>[encoding for bom, encoding in BOMS if data.startswith(bom)][:1]\<close>.
\<close>

definition find_encoding_with_bom :: "bytes \<Rightarrow> string list" where
  "find_encoding_with_bom data =
     take 1 (map snd (filter (\<lambda>(bom, encoding). prefix bom data) BOMS))"

section \<open>External collaborators\<close>

text \<open>
  The codec registry, the printable-character table, chardet, pysubs2, srt and the string
  hash belong to Python and to third-party libraries. They are parameters of the model:
  every function below that calls one of them takes the environment \<open>env\<close>.

  A codec is what \<^verbatim>\<open>codecs.lookup(name)\<close> returns: its canonical \<^verbatim>\<open>name\<close>, strict
  decoding (\<open>None\<close> is \<^verbatim>\<open>UnicodeDecodeError\<close>) and decoding with \<^verbatim>\<open>errors='replace'\<close>.

  \<^verbatim>\<open>text.encode(encoding=name)\<close> is a parameter of its own, \<open>str_encode\<close>, with any
  exception as a possible outcome. It is not a function of the registry: for a name that
  \<^verbatim>\<open>codecs.lookup\<close> accepts, \<^verbatim>\<open>str.encode\<close> still raises \<^verbatim>\<open>LookupError\<close> when the codec is
  not a text encoding (\<^verbatim>\<open>'hex'\<close>), \<^verbatim>\<open>UnicodeEncodeError\<close> when the text has no
  representation, and whatever else the codec raises (\<^verbatim>\<open>UnicodeError\<close> for
  \<^verbatim>\<open>'undefined'\<close>).
\<close>

record codec =
  codec_name :: string
  strict_decode :: "bytes \<Rightarrow> str option"
  replace_decode :: "bytes \<Rightarrow> str"

record env =
  codecs_lookup :: "string \<Rightarrow> exn + codec"
    \<comment> \<open>\<^verbatim>\<open>codecs.lookup(name)\<close>; \<open>Inl\<close> is the exception it raises\<close>
  str_encode :: "str \<Rightarrow> string \<Rightarrow> exn + bytes"
    \<comment> \<open>\<^verbatim>\<open>text.encode(encoding=name)\<close>; \<open>Inl\<close> is the exception it raises\<close>
  isprintable_char :: "nat \<Rightarrow> bool"
    \<comment> \<open>whether a code point is printable in the sense of \<^verbatim>\<open>str.isprintable\<close>\<close>
  chardet_detect :: "bytes \<Rightarrow> string option"
    \<comment> \<open>\<^verbatim>\<open>chardet.detect(content)['encoding']\<close>\<close>
  SSAFile_from_string :: "str \<Rightarrow> string option \<Rightarrow> fps option \<Rightarrow> exn + string"
    \<comment> \<open>\<^verbatim>\<open>str(SSAFile.from_string(text, format_=..., fps=...).format)\<close>\<close>
  srt_compose_parse :: "str \<Rightarrow> exn + str"
    \<comment> \<open>\<^verbatim>\<open>str(srt.compose(srt.parse(text)))\<close>\<close>
  str_hash :: "string \<Rightarrow> int"
    \<comment> \<open>the built-in \<^verbatim>\<open>hash\<close> on \<^verbatim>\<open>str\<close>\<close>

text \<open>\<^verbatim>\<open>content.decode(encoding)\<close>: the registry is consulted, then the codec decodes strictly.\<close>

definition bytes_decode :: "env \<Rightarrow> bytes \<Rightarrow> string \<Rightarrow> exn + str" where
  "bytes_decode E content encoding =
     (case codecs_lookup E encoding of
        Inl e \<Rightarrow> Inl e
      | Inr c \<Rightarrow>
          (case strict_decode c content of
             None \<Rightarrow> Inl UnicodeDecodeError
           | Some decoded \<Rightarrow> Inr decoded))"

text \<open>\<^verbatim>\<open>content.decode(encoding, errors='replace')\<close>.\<close>

definition bytes_decode_replace :: "env \<Rightarrow> bytes \<Rightarrow> string \<Rightarrow> exn + str" where
  "bytes_decode_replace E content encoding =
     (case codecs_lookup E encoding of
        Inl e \<Rightarrow> Inl e
      | Inr c \<Rightarrow> Inr (replace_decode c content))"

text \<open>
  \<^verbatim>\<open>decoded.replace('\r', '').replace('\n', '').replace('\t', '')\<close>: replacing a
  one-character string by the empty string deletes every occurrence of the character.
\<close>

definition remove_char :: "nat \<Rightarrow> str \<Rightarrow> str" where
  "remove_char c txt = filter (\<lambda>x. x \<noteq> c) txt"

definition strip_cr_lf_tab :: "str \<Rightarrow> str" where
  "strip_cr_lf_tab decoded = remove_char 9 (remove_char 10 (remove_char 13 decoded))"

text \<open>\<^verbatim>\<open>str.isprintable\<close>: every character is printable (true of the empty string).\<close>

definition isprintable :: "env \<Rightarrow> str \<Rightarrow> bool" where
  "isprintable E txt = list_all (isprintable_char E) txt"

section \<open>The language tag\<close>

text \<open>
  A babelfish \<^verbatim>\<open>Language\<close> as this module reads it: its truth value (false for the
  undefined language), \<^verbatim>\<open>alpha3\<close>, the optional \<^verbatim>\<open>country\<close> (as \<^verbatim>\<open>str(country)\<close>),
  the optional \<^verbatim>\<open>script\<close>, \<^verbatim>\<open>getattr(language, name)\<close> (\<open>None\<close> when it raises
  \<^verbatim>\<open>AttributeError\<close>) and \<^verbatim>\<open>str(language)\<close>.
\<close>

record script =
  code :: string
  script_str :: string

record language =
  lang_bool :: bool
  alpha3 :: string
  country :: "string option"
  script :: "script option"
  lang_getattr :: "string \<Rightarrow> string option"
  lang_str :: string

text \<open>\<^verbatim>\<open>find_potential_encodings\<close> (lines 534-605).\<close>

definition find_potential_encodings :: "language \<Rightarrow> string list" where
  "find_potential_encodings lang =
     (if alpha3 lang = ''zho'' then
        [''cp936'', ''gb2312'', ''gbk'', ''hz'', ''iso2022_jp_2'', ''cp950'', ''big5hkscs'',
         ''big5'', ''gb18030'', ''utf-16'']
      else if alpha3 lang = ''jpn'' then
        [''shift-jis'', ''cp932'', ''euc_jp'', ''iso2022_jp'', ''iso2022_jp_1'',
         ''iso2022_jp_2'', ''iso2022_jp_2004'', ''iso2022_jp_3'', ''iso2022_jp_ext'']
      else if alpha3 lang = ''tha'' then [''tis-620'', ''cp874'']
      else if alpha3 lang \<in> set [''ara'', ''fas'', ''per''] then
        [''windows-1256'', ''utf-16'', ''utf-16le'', ''ascii'', ''iso-8859-6'']
      else if alpha3 lang = ''heb'' then [''windows-1255'', ''iso-8859-8'']
      else if alpha3 lang = ''tur'' then [''windows-1254'', ''iso-8859-9'', ''iso-8859-3'']
      else if alpha3 lang \<in> set [''grc'', ''gre'', ''ell''] then
        [''windows-1253'', ''cp1253'', ''cp737'', ''iso8859-7'', ''cp875'', ''cp869'',
         ''iso2022_jp_2'', ''mac_greek'']
      else if alpha3 lang \<in> set [''pol'', ''cze'', ''ces'', ''slk'', ''slo'', ''slv'', ''hun'',
                 ''bos'', ''hbs'', ''hrv'', ''rsb'', ''ron'', ''rum'', ''sqi'', ''alb''] then
        [''windows-1250'', ''iso-8859-2''] @
        (if alpha3 lang = ''slv'' then [''iso-8859-4'']
         else if alpha3 lang \<in> set [''sqi'', ''alb''] then
           [''windows-1252'', ''iso-8859-15'', ''iso-8859-1'', ''iso-8859-9'']
         else [])
      else if alpha3 lang \<in> set [''bul'', ''mkd'', ''mac'', ''rus'', ''ukr''] then
        [''windows-1251'', ''iso-8859-5'']
      else if alpha3 lang = ''srp'' then
        (if script lang \<noteq> None \<and> code (the (script lang)) = ''Latn'' then
           [''windows-1250'', ''iso-8859-2'']
         else if script lang \<noteq> None \<and> code (the (script lang)) = ''Cyrl'' then
           [''windows-1251'', ''iso-8859-5'']
         else [''windows-1250'', ''windows-1251'', ''iso-8859-2'', ''iso-8859-5''])
      else [''windows-1252'', ''iso-8859-15'', ''iso-8859-9'', ''iso-8859-4'', ''iso-8859-1''])"

section \<open>Suffix and path\<close>

text \<open>\<^verbatim>\<open>get_subtitle_suffix\<close> (lines 483-531).\<close>

definition get_subtitle_suffix :: "language \<Rightarrow> string \<Rightarrow> LanguageType \<Rightarrow> bool \<Rightarrow> string" where
  "get_subtitle_suffix lang language_format language_type language_type_suffix =
     (let only_language_formats = [''alpha2'', ''alpha3'', ''alpha3b'', ''alpha3t'', ''name''];
          language_part =
            (if lang_bool lang then
               (let language_str =
                      (case lang_getattr lang language_format of
                         Some v \<Rightarrow> v
                       | None \<Rightarrow> lang_str lang);
                    part0 = ''.'' @ language_str
                in if language_format \<in> set only_language_formats then
                     (let part1 = (case country lang of
                                     Some c \<Rightarrow> part0 @ ''-'' @ c
                                   | None \<Rightarrow> part0);
                          part2 = (case script lang of
                                     Some sc \<Rightarrow> part1 @ ''-'' @ script_str sc
                                   | None \<Rightarrow> part1)
                      in part2)
                   else part0)
             else []);
          language_type_part =
            (if language_type_suffix then
               (if language_type = HEARING_IMPAIRED then ''.hi''
                else if language_type = FORCED then ''.forced''
                else [])
             else [])
      in language_type_part @ language_part)"

text \<open>
  Modelled from the spec: \<^verbatim>\<open>os.path.splitext\<close> belongs to Python's standard library and
  is not part of the repository; the spec says of it "strip the video path's existing
  extension". The definition follows the POSIX version: the extension starts at the last
  dot of the last path component, unless that component has only dots before it.
\<close>

definition rfind :: "char \<Rightarrow> string \<Rightarrow> int" where
  "rfind c p =
     (case List.find (\<lambda>i. p ! i = c) (rev [0..<length p]) of
        None \<Rightarrow> - 1
      | Some i \<Rightarrow> int i)"

definition splitext :: "string \<Rightarrow> string \<times> string" where
  "splitext p =
     (let sepIndex = rfind (CHR ''/'') p;
          dotIndex = rfind (CHR ''.'') p
      in if dotIndex > sepIndex \<and>
            list_ex (\<lambda>c. c \<noteq> CHR ''.'')
              (take (nat (dotIndex - (sepIndex + 1))) (drop (nat (sepIndex + 1)) p))
         then (take (nat dotIndex) p, drop (nat dotIndex) p)
         else (p, []))"

text \<open>\<^verbatim>\<open>get_subtitle_path\<close> (lines 608-625).\<close>

definition get_subtitle_path :: "string \<Rightarrow> string \<Rightarrow> string \<Rightarrow> string" where
  "get_subtitle_path video_path sfx extension =
     (let subtitle_root = fst (splitext video_path)
      in subtitle_root @ sfx @ extension)"

section \<open>The Subtitle class\<close>

text \<open>
  The attributes of a \<^verbatim>\<open>Subtitle\<close> (lines 101-141). The private attributes
  \<^verbatim>\<open>_content\<close>, \<^verbatim>\<open>_text\<close>, \<^verbatim>\<open>_is_decoded\<close>, \<^verbatim>\<open>_is_valid\<close> and \<^verbatim>\<open>_guess_encoding\<close>
  carry the prefix \<open>priv\<close>. \<^verbatim>\<open>provider_name\<close> is a class attribute: it is fixed by the
  class of the instance.
\<close>

record subtitle =
  provider_name :: string
  priv_content :: "bytes option"
  priv_text :: str
  priv_is_decoded :: bool
  priv_is_valid :: "bool option"
  priv_guess_encoding :: bool
  language :: language
  subtitle_id :: string
  language_type :: LanguageType
  page_link :: "string option"
  encoding :: "string option"
  subtitle_format :: "string option"
  fps :: "fps option"
  embedded :: bool

text \<open>
  A method returns a value and the updated object, or raises: \<open>Inl (e, s)\<close> is the
  exception \<open>e\<close>, leaving the object as \<open>s\<close>.
\<close>

type_synonym 'a result = "(exn \<times> subtitle) + ('a \<times> subtitle)"

text \<open>
  \<^verbatim>\<open>Subtitle.__init__\<close> (lines 143-177). \<^verbatim>\<open>if encoding:\<close> holds for a non-empty string.
  The handler catches \<^verbatim>\<open>TypeError\<close> and \<^verbatim>\<open>LookupError\<close>; any other exception of
  \<^verbatim>\<open>codecs.lookup\<close> leaves the constructor.
\<close>

definition Subtitle_init ::
  "env \<Rightarrow> string \<Rightarrow> language \<Rightarrow> string \<Rightarrow> bool option \<Rightarrow> bool option \<Rightarrow> string option \<Rightarrow>
   string option \<Rightarrow> string option \<Rightarrow> fps option \<Rightarrow> bool \<Rightarrow> bool \<Rightarrow> exn + subtitle" where
  "Subtitle_init E cls_provider_name lang sid hearing_impaired forced link enc fmt rate emb guess =
     (let self = \<lparr>provider_name = cls_provider_name,
                  priv_content = None,
                  priv_text = [],
                  priv_is_decoded = False,
                  priv_is_valid = None,
                  priv_guess_encoding = guess,
                  language = lang,
                  subtitle_id = sid,
                  language_type = from_flags hearing_impaired forced,
                  page_link = link,
                  encoding = None,
                  subtitle_format = fmt,
                  fps = rate,
                  embedded = emb\<rparr>
      in case enc of
           None \<Rightarrow> Inr self
         | Some name \<Rightarrow>
             if name = [] then Inr self
             else
               (case codecs_lookup E name of
                  Inr c \<Rightarrow> Inr (self\<lparr>encoding := Some (codec_name c)\<rparr>)
                | Inl e \<Rightarrow>
                    if e = TypeError \<or> e = LookupError then Inr self
                    else Inl e))"

text \<open>The properties \<^verbatim>\<open>id\<close> (lines 179-182) and \<^verbatim>\<open>content\<close> (lines 199-206).\<close>

definition id_prop :: "subtitle \<Rightarrow> string" where
  "id_prop self = subtitle_id self"

definition content :: "subtitle \<Rightarrow> bytes option" where
  "content self = priv_content self"

text \<open>\<^verbatim>\<open>clear_content\<close> (lines 223-227).\<close>

definition clear_content :: "subtitle \<Rightarrow> subtitle" where
  "clear_content self =
     self\<lparr>priv_text := [], priv_is_decoded := False, priv_is_valid := None\<rparr>"

text \<open>
  \<^verbatim>\<open>_decode_content\<close> (lines 229-241). The flag is set before anything can raise.
  \<^verbatim>\<open>not self.encoding\<close> holds for \<^verbatim>\<open>None\<close> and for the empty string.
\<close>

definition decode_content :: "env \<Rightarrow> subtitle \<Rightarrow> str result" where
  "decode_content E self =
     (let s1 = self\<lparr>priv_is_decoded := True\<rparr>
      in case content s1 of
           None \<Rightarrow> Inr ([], s1)
         | Some c \<Rightarrow>
             if c = [] then Inr ([], s1)
             else if encoding s1 = None \<or> encoding s1 = Some [] then Inr ([], s1)
             else
               (case bytes_decode_replace E c (the (encoding s1)) of
                  Inl e \<Rightarrow> Inl (e, s1)
                | Inr decoded \<Rightarrow> Inr (decoded, s1)))"

text \<open>The property \<^verbatim>\<open>text\<close> (lines 216-221).\<close>

definition text_prop :: "env \<Rightarrow> subtitle \<Rightarrow> str result" where
  "text_prop E self =
     (if \<not> priv_is_decoded self then
        (case decode_content E self of
           Inl x \<Rightarrow> Inl x
         | Inr (decoded, s1) \<Rightarrow> Inr (decoded, s1\<lparr>priv_text := decoded\<rparr>))
      else Inr (priv_text self, self))"

text \<open>
  \<^verbatim>\<open>guess_encoding\<close> (lines 323-365). The loop over the candidates: a candidate whose
  decoding raises \<^verbatim>\<open>UnicodeDecodeError\<close> is passed over, one whose stripped text is
  not printable is skipped with \<^verbatim>\<open>continue\<close>, the first other one is returned. \<open>Inr None\<close>
  is the end of the loop without a return; any other exception leaves the method.
\<close>

fun guess_encoding_loop :: "env \<Rightarrow> bytes \<Rightarrow> string list \<Rightarrow> exn + string option" where
  "guess_encoding_loop E c [] = Inr None"
| "guess_encoding_loop E c (enc # encodings) =
     (case bytes_decode E c enc of
        Inl e \<Rightarrow>
          if e = UnicodeDecodeError then guess_encoding_loop E c encodings
          else Inl e
      | Inr decoded \<Rightarrow>
          if \<not> isprintable E (strip_cr_lf_tab decoded) then guess_encoding_loop E c encodings
          else Inr (Some enc))"

definition guess_encoding :: "env \<Rightarrow> subtitle \<Rightarrow> exn + string option" where
  "guess_encoding E self =
     (case content self of
        None \<Rightarrow> Inr None
      | Some c \<Rightarrow>
          (let encodings = [''utf-8''] @ find_encoding_with_bom c
                             @ find_potential_encodings (language self)
           in case guess_encoding_loop E c encodings of
                Inl e \<Rightarrow> Inl e
              | Inr (Some enc) \<Rightarrow> Inr (Some enc)
              | Inr None \<Rightarrow> Inr (chardet_detect E c)))"

text \<open>The setter of \<^verbatim>\<open>content\<close> (lines 208-214).\<close>

definition content_setter :: "env \<Rightarrow> bytes option \<Rightarrow> subtitle \<Rightarrow> unit result" where
  "content_setter E v self =
     (let s1 = clear_content self;
          s2 = s1\<lparr>priv_content := v\<rparr>
      in if priv_guess_encoding s2 \<and> encoding s2 = None then
           (case guess_encoding E s2 of
              Inl e \<Rightarrow> Inl (e, s2)
            | Inr guessed \<Rightarrow> Inr ((), s2\<lparr>encoding := guessed\<rparr>))
         else Inr ((), s2))"

text \<open>
  \<^verbatim>\<open>reencode\<close> (lines 243-269). Only \<^verbatim>\<open>UnicodeEncodeError\<close> is caught; any other
  exception of \<^verbatim>\<open>text.encode\<close> leaves the method.
\<close>

definition reencode :: "env \<Rightarrow> string \<Rightarrow> subtitle \<Rightarrow> bool result" where
  "reencode E enc self =
     (case text_prop E self of
        Inl x \<Rightarrow> Inl x
      | Inr (txt, s1) \<Rightarrow>
          if txt = [] then Inr (False, s1)
          else
            (case str_encode E txt enc of
               Inl e \<Rightarrow>
                 if e = UnicodeEncodeError then Inr (False, s1)
                 else Inl (e, s1)
             | Inr new_content \<Rightarrow>
                 Inr (True, s1\<lparr>encoding := Some enc, priv_content := Some new_content\<rparr>)))"

text \<open>
  \<^verbatim>\<open>get_subtitle_format\<close> (lines 457-480). On \<^verbatim>\<open>UnknownFPSError\<close> the function calls
  itself with \<^verbatim>\<open>default_fps = 24\<close>; any other exception gives \<^verbatim>\<open>None\<close>. Nothing in
  the source bounds the recursion, so the result is partial: \<open>None\<close> is a call that does
  not return, \<open>Some r\<close> one that returns \<open>r\<close>.
\<close>

partial_function (option) get_subtitle_format ::
  "env \<Rightarrow> str \<Rightarrow> string option \<Rightarrow> fps option \<Rightarrow> string option option" where
  "get_subtitle_format E txt fmt rate =
     (case SSAFile_from_string E txt fmt rate of
        Inr obj_format \<Rightarrow> Some (Some obj_format)
      | Inl e \<Rightarrow>
          if e = UnknownFPSError then get_subtitle_format E txt fmt (Some 24)
          else Some None)"

text \<open>\<^verbatim>\<open>parse_srt\<close> (lines 319-321).\<close>

definition parse_srt :: "env \<Rightarrow> subtitle \<Rightarrow> str result" where
  "parse_srt E self =
     (case text_prop E self of
        Inl x \<Rightarrow> Inl x
      | Inr (txt, s1) \<Rightarrow>
          (case srt_compose_parse E txt of
             Inl e \<Rightarrow> Inl (e, s1)
           | Inr parsed \<Rightarrow> Inr (parsed, s1)))"

text \<open>
  \<^verbatim>\<open>_check_is_valid\<close> (lines 283-317), in its three parts. The block that guesses the
  format (lines 294-301) either ends the method with \<^verbatim>\<open>False\<close> (\<open>Inr (False, s)\<close>) or
  goes on (\<open>Inr (True, s)\<close>); \<^verbatim>\<open>not guessed_format\<close> holds for \<^verbatim>\<open>None\<close> and for the empty
  string.
\<close>

definition guess_format_block :: "env \<Rightarrow> subtitle \<Rightarrow> bool result option" where
  "guess_format_block E self =
     (if subtitle_format self = None then
        (case text_prop E self of
           Inl x \<Rightarrow> Some (Inl x)
         | Inr (txt, s1) \<Rightarrow>
             (case get_subtitle_format E txt (subtitle_format s1) (fps s1) of
                None \<Rightarrow> None
              | Some guessed_format \<Rightarrow>
                  if guessed_format = None \<or> guessed_format = Some [] then Some (Inr (False, s1))
                  else Some (Inr (True, s1\<lparr>subtitle_format := guessed_format\<rparr>))))
      else Some (Inr (True, self)))"

text \<open>The srt block (lines 304-314) and the final \<^verbatim>\<open>return True\<close> (line 317).\<close>

definition srt_block :: "env \<Rightarrow> bool \<Rightarrow> subtitle \<Rightarrow> bool result" where
  "srt_block E auto_fix_srt self =
     (if subtitle_format self = Some ''srt'' then
        (case parse_srt E self of
           Inl (e, s1) \<Rightarrow> Inr (False, s1)
         | Inr (parsed, s1) \<Rightarrow>
             if auto_fix_srt then Inr (True, s1\<lparr>priv_text := parsed\<rparr>)
             else Inr (True, s1))
      else Inr (True, self))"

definition check_is_valid :: "env \<Rightarrow> bool \<Rightarrow> subtitle \<Rightarrow> bool result option" where
  "check_is_valid E auto_fix_srt self =
     (case text_prop E self of
        Inl x \<Rightarrow> Some (Inl x)
      | Inr (txt, s1) \<Rightarrow>
          if txt = [] then Some (Inr (False, s1))
          else
            (case guess_format_block E s1 of
               None \<Rightarrow> None
             | Some (Inl x) \<Rightarrow> Some (Inl x)
             | Some (Inr (go_on, s2)) \<Rightarrow>
                 if \<not> go_on then Some (Inr (False, s2))
                 else Some (srt_block E auto_fix_srt s2)))"

text \<open>\<^verbatim>\<open>is_valid\<close> (lines 271-281).\<close>

definition is_valid :: "env \<Rightarrow> bool \<Rightarrow> subtitle \<Rightarrow> bool result option" where
  "is_valid E auto_fix_srt self =
     (case priv_is_valid self of
        None \<Rightarrow>
          (case check_is_valid E auto_fix_srt self of
             None \<Rightarrow> None
           | Some (Inl x) \<Rightarrow> Some (Inl x)
           | Some (Inr (r, s1)) \<Rightarrow> Some (Inr (r, s1\<lparr>priv_is_valid := Some r\<rparr>)))
      | Some b \<Rightarrow> Some (Inr (b, self)))"

text \<open>
  \<^verbatim>\<open>get_path\<close> (lines 367-401). \<^verbatim>\<open>FORMAT_TO_EXTENSION.get(self.subtitle_format, '.srt')\<close>
  gives the default also when the format is \<^verbatim>\<open>None\<close>. Of the video only its name is
  read.
\<close>

definition get_path ::
  "subtitle \<Rightarrow> string \<Rightarrow> bool \<Rightarrow> string option \<Rightarrow> bool \<Rightarrow> string \<Rightarrow> string" where
  "get_path self video_name single extension language_type_suffix language_format =
     (let extension1 =
            (case extension of
               Some ext \<Rightarrow> ext
             | None \<Rightarrow>
                 (case subtitle_format self of
                    None \<Rightarrow> ''.srt''
                  | Some fmt \<Rightarrow>
                      (case FORMAT_TO_EXTENSION fmt of
                         None \<Rightarrow> ''.srt''
                       | Some ext \<Rightarrow> ext)));
          sfx =
            (if single then []
             else get_subtitle_suffix (language self) language_format (language_type self)
                    language_type_suffix)
      in get_subtitle_path video_name sfx extension1)"

text \<open>\<^verbatim>\<open>__hash__\<close> (lines 414-415).\<close>

definition Subtitle_hash :: "env \<Rightarrow> subtitle \<Rightarrow> int" where
  "Subtitle_hash E self = str_hash E (provider_name self @ ''-'' @ id_prop self)"

section \<open>Objects and their identity\<close>

text \<open>
  Instances live in a store; a reference is the position of the object in it. The
  constructor allocates a fresh object.

  The class defines \<^verbatim>\<open>__hash__\<close> and no \<^verbatim>\<open>__eq__\<close>, here or in a base class other than
  \<^verbatim>\<open>object\<close>. So \<^verbatim>\<open>a == b\<close> on two subtitles is \<^verbatim>\<open>object.__eq__\<close>: it holds exactly when
  both are the same object.
\<close>

type_synonym ref = nat
type_synonym store = "subtitle list"

definition new_Subtitle ::
  "env \<Rightarrow> store \<Rightarrow> string \<Rightarrow> language \<Rightarrow> string \<Rightarrow> bool option \<Rightarrow> bool option \<Rightarrow>
   string option \<Rightarrow> string option \<Rightarrow> string option \<Rightarrow> fps option \<Rightarrow> bool \<Rightarrow> bool \<Rightarrow>
   exn + (ref \<times> store)" where
  "new_Subtitle E h cls_provider_name lang sid hearing_impaired forced link enc fmt rate emb guess =
     (case Subtitle_init E cls_provider_name lang sid hearing_impaired forced link enc fmt rate
             emb guess of
        Inl e \<Rightarrow> Inl e
      | Inr self \<Rightarrow> Inr (length h, h @ [self]))"

definition Subtitle_eq :: "ref \<Rightarrow> ref \<Rightarrow> bool" where
  "Subtitle_eq a b = (a = b)"

section \<open>Sequences of calls\<close>

text \<open>
  A client of a subtitle calls its methods and assigns its public attributes, one after the
  other. The calls that can change the object are \<^verbatim>\<open>is_valid\<close>, reading \<^verbatim>\<open>text\<close>,
  \<^verbatim>\<open>parse_srt\<close>, \<^verbatim>\<open>reencode\<close>, \<^verbatim>\<open>clear_content\<close> and assigning \<^verbatim>\<open>content\<close>;
  \<^verbatim>\<open>guess_encoding\<close>, \<^verbatim>\<open>get_path\<close> and \<^verbatim>\<open>__hash__\<close> only read it. The public data
  attributes (lines 119-141) are plain attributes: assigning one stores the value and
  nothing else. \<open>after_call\<close> is the object as a call leaves it, whether the call returns
  or raises (a client may catch the exception and go on); \<open>None\<close> is a call that does not
  return.
\<close>

datatype call =
    Call_is_valid bool
  | Call_text
  | Call_parse_srt
  | Call_reencode string
  | Call_clear_content
  | Call_set_content "bytes option"
  | Assign_language language
  | Assign_subtitle_id string
  | Assign_language_type LanguageType
  | Assign_page_link "string option"
  | Assign_encoding "string option"
  | Assign_subtitle_format "string option"
  | Assign_fps "fps option"
  | Assign_embedded bool

definition state_of :: "'a result \<Rightarrow> subtitle" where
  "state_of r = (case r of Inl (e, s) \<Rightarrow> s | Inr (v, s) \<Rightarrow> s)"

fun after_call :: "env \<Rightarrow> call \<Rightarrow> subtitle \<Rightarrow> subtitle option" where
  "after_call E (Call_is_valid auto_fix_srt) self =
     map_option state_of (is_valid E auto_fix_srt self)"
| "after_call E Call_text self = Some (state_of (text_prop E self))"
| "after_call E Call_parse_srt self = Some (state_of (parse_srt E self))"
| "after_call E (Call_reencode enc) self = Some (state_of (reencode E enc self))"
| "after_call E Call_clear_content self = Some (clear_content self)"
| "after_call E (Call_set_content v) self = Some (state_of (content_setter E v self))"
| "after_call E (Assign_language v) self = Some (self\<lparr>language := v\<rparr>)"
| "after_call E (Assign_subtitle_id v) self = Some (self\<lparr>subtitle_id := v\<rparr>)"
| "after_call E (Assign_language_type v) self = Some (self\<lparr>language_type := v\<rparr>)"
| "after_call E (Assign_page_link v) self = Some (self\<lparr>page_link := v\<rparr>)"
| "after_call E (Assign_encoding v) self = Some (self\<lparr>encoding := v\<rparr>)"
| "after_call E (Assign_subtitle_format v) self = Some (self\<lparr>subtitle_format := v\<rparr>)"
| "after_call E (Assign_fps v) self = Some (self\<lparr>fps := v\<rparr>)"
| "after_call E (Assign_embedded v) self = Some (self\<lparr>embedded := v\<rparr>)"

fun after_calls :: "env \<Rightarrow> call list \<Rightarrow> subtitle \<Rightarrow> subtitle option" where
  "after_calls E [] self = Some self"
| "after_calls E (c # cs) self =
     (case after_call E c self of
        None \<Rightarrow> None
      | Some s \<Rightarrow> after_calls E cs s)"

text \<open>
  The calls that do not reset the validity flag: all but \<^verbatim>\<open>clear_content\<close> and the
  assignment of \<^verbatim>\<open>content\<close>.
\<close>

fun keeps_validity :: "call \<Rightarrow> bool" where
  "keeps_validity Call_clear_content = False"
| "keeps_validity (Call_set_content v) = False"
| "keeps_validity c = True"

section \<open>A test environment\<close>

text \<open>
  Concrete collaborators, used to run the definitions on examples. They are small stand-ins:
  on the inputs of the examples the codec registry, the format detector and the srt round
  trip answer as the real ones do; the hash is an arbitrary function of the string.

  The registry knows a few names, each with its canonical codec name. A name with an
  embedded NUL is rejected with \<^verbatim>\<open>ValueError\<close> before the registry is searched, as
  CPython's \<^verbatim>\<open>codecs.lookup\<close> does (\<^verbatim>\<open>ValueError: embedded null character\<close>); any other
  unknown name raises \<^verbatim>\<open>LookupError\<close>. The codec \<open>seven_bit_codec\<close> is the ASCII codec
  under a given name: all the encodings registered with it extend ASCII, and the examples
  give them 7-bit input only. \<open>latin_1_codec\<close> is ISO-8859-1. The
  printable code points of ASCII are those from U+0020 to U+007E.

  Every name of the test registry is a text encoding, so \<^verbatim>\<open>text.encode\<close> with one of them
  encodes: code points below 256 for ISO-8859-1 and below 128 for the others, and
  \<^verbatim>\<open>UnicodeEncodeError\<close> beyond. For any other name it raises what the registry raises.
\<close>

definition seven_bit_codec :: "string \<Rightarrow> codec" where
  "seven_bit_codec n =
     \<lparr>codec_name = n,
      strict_decode = (\<lambda>bs. if list_all (\<lambda>b. b < 0x80) bs then Some (map unat bs) else None),
      replace_decode = (\<lambda>bs. map (\<lambda>b. if b < 0x80 then unat b else 0xFFFD) bs)\<rparr>"

definition latin_1_codec :: codec where
  "latin_1_codec =
     \<lparr>codec_name = ''iso8859-1'',
      strict_decode = (\<lambda>bs. Some (map unat bs)),
      replace_decode = (\<lambda>bs. map unat bs)\<rparr>"

definition test_registry :: "(string \<times> codec) list" where
  "test_registry =
     [(''utf-8'', seven_bit_codec ''utf-8''),
      (''utf8'', seven_bit_codec ''utf-8''),
      (''ascii'', seven_bit_codec ''ascii''),
      (''windows-1252'', seven_bit_codec ''cp1252''),
      (''iso-8859-15'', seven_bit_codec ''iso8859-15''),
      (''iso-8859-9'', seven_bit_codec ''iso8859-9''),
      (''iso-8859-4'', seven_bit_codec ''iso8859-4''),
      (''iso-8859-1'', latin_1_codec),
      (''latin-1'', latin_1_codec)]"

definition test_codecs_lookup :: "string \<Rightarrow> exn + codec" where
  "test_codecs_lookup name =
     (if CHR 0x00 \<in> set name then Inl ValueError
      else case map_of test_registry name of
             None \<Rightarrow> Inl LookupError
           | Some c \<Rightarrow> Inr c)"

definition test_str_encode :: "str \<Rightarrow> string \<Rightarrow> exn + bytes" where
  "test_str_encode txt name =
     (case test_codecs_lookup name of
        Inl e \<Rightarrow> Inl e
      | Inr c \<Rightarrow>
          if list_all (\<lambda>cp. cp < (if codec_name c = ''iso8859-1'' then 0x100 else 0x80)) txt
          then Inr (map of_nat txt)
          else Inl UnicodeEncodeError)"

text \<open>
  The format detector of the test environment knows srt by a leading digit \<^verbatim>\<open>1\<close> and
  MicroDVD by a leading brace (for which it wants a frame rate); the srt round trip accepts
  a text with a leading \<^verbatim>\<open>1\<close> and recomposes it with one more newline at the end, which is
  what \<^verbatim>\<open>srt.compose\<close> makes of a file whose last cue ends with a single newline.
\<close>

definition test_SSAFile_from_string :: "str \<Rightarrow> string option \<Rightarrow> fps option \<Rightarrow> exn + string" where
  "test_SSAFile_from_string txt fmt rate =
     (if prefix [0x31] txt then Inr ''srt''
      else if prefix [0x7B] txt then
        (if rate = None then Inl UnknownFPSError else Inr ''microdvd'')
      else Inl OtherException)"

definition test_srt_compose_parse :: "str \<Rightarrow> exn + str" where
  "test_srt_compose_parse txt =
     (if prefix [0x31] txt then Inr (txt @ [0x0A]) else Inl OtherException)"

definition test_env :: env where
  "test_env =
     \<lparr>codecs_lookup = test_codecs_lookup,
      str_encode = test_str_encode,
      isprintable_char = (\<lambda>c. 0x20 \<le> c \<and> c < 0x7F),
      chardet_detect = (\<lambda>bs. if list_all (\<lambda>b. b < 0x80) bs then Some ''ascii'' else None),
      SSAFile_from_string = test_SSAFile_from_string,
      srt_compose_parse = test_srt_compose_parse,
      str_hash = (\<lambda>s. int (sum_list (map of_char s)))\<rparr>"

text \<open>English: \<^verbatim>\<open>Language('eng')\<close>, with no country and no script.\<close>

definition english :: language where
  "english =
     \<lparr>lang_bool = True,
      alpha3 = ''eng'',
      country = None,
      script = None,
      lang_getattr = (\<lambda>name. if name = ''alpha2'' then Some ''en''
                              else if name = ''alpha3'' then Some ''eng''
                              else if name = ''name'' then Some ''English''
                              else None),
      lang_str = ''en''\<rparr>"

text \<open>
  A SubRip file with one cue, in ASCII; \<open>srt_bytes\<close> are its bytes and \<open>srt_text\<close> is
  its text.
  \<^verbatim>\<open>
  1
  00:00:01,000 --> 00:00:02,000
  Hi
  \<close>
\<close>

definition srt_example :: string where
  "srt_example =
     ''1'' @ [CHR 0x0A] @ ''00:00:01,000 --> 00:00:02,000'' @ [CHR 0x0A] @ ''Hi'' @ [CHR 0x0A]"

definition srt_bytes :: bytes where
  "srt_bytes = map (\<lambda>c. of_nat (of_char c)) srt_example"

definition srt_text :: str where
  "srt_text = map of_char srt_example"

text \<open>
  \<open>fresh_subtitle\<close> is \<^verbatim>\<open>Subtitle(Language('eng'), 'abc')\<close> of a provider \<^verbatim>\<open>'test'\<close>,
  right after construction. \<open>loaded_subtitle\<close> is the same object after the bytes of the
  example were assigned to \<^verbatim>\<open>content\<close>, with the encoding guessed.
\<close>

definition fresh_subtitle :: subtitle where
  "fresh_subtitle =
     \<lparr>provider_name = ''test'',
      priv_content = None,
      priv_text = [],
      priv_is_decoded = False,
      priv_is_valid = None,
      priv_guess_encoding = True,
      language = english,
      subtitle_id = ''abc'',
      language_type = UNKNOWN,
      page_link = None,
      encoding = None,
      subtitle_format = None,
      fps = None,
      embedded = False\<rparr>"

definition loaded_subtitle :: subtitle where
  "loaded_subtitle =
     fresh_subtitle\<lparr>priv_content := Some srt_bytes, encoding := Some ''utf-8''\<rparr>"

text \<open>\<open>validated_subtitle\<close> is \<open>loaded_subtitle\<close> after \<^verbatim>\<open>is_valid()\<close> has returned \<^verbatim>\<open>True\<close>.\<close>

definition validated_subtitle :: subtitle where
  "validated_subtitle =
     loaded_subtitle\<lparr>priv_is_decoded := True, priv_text := srt_text,
                     subtitle_format := Some ''srt'', priv_is_valid := Some True\<rparr>"

section \<open>Auxiliary facts\<close>

declare get_subtitle_format.simps [code]

lemmas test_env_defs =
  test_env_def test_codecs_lookup_def test_registry_def seven_bit_codec_def latin_1_codec_def
  test_str_encode_def test_SSAFile_from_string_def test_srt_compose_parse_def

lemmas BOM_defs =
  BOMS_def BOM_UTF8_def BOM_UTF16_BE_def BOM_UTF16_LE_def BOM_UTF32_BE_def BOM_UTF32_LE_def

text \<open>The three replacements together delete exactly CR, LF and TAB.\<close>

lemma strip_cr_lf_tab_filter:
  "strip_cr_lf_tab decoded = filter (\<lambda>x. x \<notin> {13, 10, 9}) decoded"
  by (induction decoded) (simp_all add: strip_cr_lf_tab_def remove_char_def)

text \<open>
  When the registry knows every candidate, the loop of \<^verbatim>\<open>guess_encoding\<close> is a search for
  the first candidate that decodes to printable text.
\<close>

lemma guess_encoding_loop_find:
  assumes "\<forall>enc \<in> set encodings. \<exists>cd. codecs_lookup E enc = Inr cd"
  shows "guess_encoding_loop E c encodings =
         Inr (List.find
                (\<lambda>enc. case bytes_decode E c enc of
                          Inl e \<Rightarrow> False
                        | Inr decoded \<Rightarrow>
                            list_all (isprintable_char E) (filter (\<lambda>x. x \<notin> {13, 10, 9}) decoded))
                encodings)"
  using assms
proof (induction encodings)
  case Nil
  then show ?case by simp
next
  case (Cons enc encodings)
  from Cons.prems obtain cd where cd: "codecs_lookup E enc = Inr cd" by auto
  have rest: "\<forall>enc \<in> set encodings. \<exists>cd. codecs_lookup E enc = Inr cd"
    using Cons.prems by simp
  show ?case
  proof (cases "strict_decode cd c")
    case None
    then show ?thesis
      using Cons.IH [OF rest] cd by (simp add: bytes_decode_def)
  next
    case (Some decoded)
    then show ?thesis
      using Cons.IH [OF rest] cd
      by (simp add: bytes_decode_def isprintable_def strip_cr_lf_tab_filter)
  qed
qed

text \<open>
  Reading \<^verbatim>\<open>text\<close>: once decoded, the cached text is returned and nothing changes; a read that
  returns leaves the object decoded, with the text cached and every other attribute as it was.
\<close>

lemma text_prop_decoded:
  "priv_is_decoded self \<Longrightarrow> text_prop E self = Inr (priv_text self, self)"
  by (simp add: text_prop_def)

lemma text_prop_returns:
  assumes "text_prop E self = Inr (txt, s1)"
  shows "s1 = (if priv_is_decoded self then self
               else self\<lparr>priv_is_decoded := True, priv_text := txt\<rparr>)"
    and "txt = priv_text s1" and "priv_is_decoded s1"
  using assms
  by (auto simp: text_prop_def decode_content_def Let_def content_def
           split: if_splits option.splits sum.splits)

lemma text_prop_frame:
  assumes "text_prop E self = Inr (txt, s1)"
  shows "priv_content s1 = priv_content self" and "encoding s1 = encoding self"
    and "subtitle_format s1 = subtitle_format self" and "fps s1 = fps self"
    and "priv_is_valid s1 = priv_is_valid self" and "provider_name s1 = provider_name self"
    and "subtitle_id s1 = subtitle_id self"
  using text_prop_returns(1) [OF assms] by (simp_all split: if_splits)

lemma text_prop_again:
  assumes "text_prop E self = Inr (txt, s1)"
  shows "text_prop E s1 = Inr (txt, s1)"
  using text_prop_returns(2,3) [OF assms] by (simp add: text_prop_decoded)

text \<open>
  The text read from an object that is not decoded yet is the decoding of its content.
\<close>

lemma text_prop_fresh_decode:
  assumes "\<not> priv_is_decoded s"
  shows "map_sum fst fst (text_prop E s) =
         (if priv_content s = None \<or> priv_content s = Some [] \<or> encoding s = None
               \<or> encoding s = Some []
          then Inr []
          else bytes_decode_replace E (the (priv_content s)) (the (encoding s)))"
  using assms
  by (auto simp: text_prop_def decode_content_def content_def Let_def
           split: option.splits sum.splits)

text \<open>
  A detector that knows the frame rate once it is given one makes \<^verbatim>\<open>get_subtitle_format\<close>
  return after at most one retry.
\<close>

lemma get_subtitle_format_returns:
  assumes "\<forall>t f. SSAFile_from_string E t f (Some 24) \<noteq> Inl UnknownFPSError"
  shows "get_subtitle_format E txt fmt rate =
         Some (case SSAFile_from_string E txt fmt rate of
                 Inr obj_format \<Rightarrow> Some obj_format
               | Inl e \<Rightarrow>
                   if e = UnknownFPSError then
                     (case SSAFile_from_string E txt fmt (Some 24) of
                        Inr obj_format \<Rightarrow> Some obj_format
                      | Inl e' \<Rightarrow> None)
                   else None)"
proof -
  have second: "get_subtitle_format E txt fmt (Some 24) =
        Some (case SSAFile_from_string E txt fmt (Some 24) of
                Inr obj_format \<Rightarrow> Some obj_format
              | Inl e' \<Rightarrow> None)"
    using assms
    by (subst get_subtitle_format.simps) (auto split: sum.splits)
  show ?thesis
    by (subst get_subtitle_format.simps) (simp add: second split: sum.splits)
qed

text \<open>
  \<^verbatim>\<open>guess_encoding\<close> reads the content and the language only.
\<close>

lemma guess_encoding_cong:
  "content a = content b \<Longrightarrow> language a = language b \<Longrightarrow> guess_encoding E a = guess_encoding E b"
  by (auto simp: guess_encoding_def split: option.splits)

text \<open>
  The constructor and the setter of \<^verbatim>\<open>content\<close> leave the provider name and the id alone.
\<close>

lemma Subtitle_init_identity:
  assumes "Subtitle_init E pn lang sid hi fo lk en fm ra em gu = Inr self"
  shows "provider_name self = pn" and "subtitle_id self = sid"
  using assms
  by (auto simp: Subtitle_init_def Let_def split: option.splits if_splits sum.splits)

lemma content_setter_identity:
  assumes "content_setter E v self = Inr ((), s')"
  shows "provider_name s' = provider_name self" and "subtitle_id s' = subtitle_id self"
  using assms
  by (auto simp: content_setter_def Let_def clear_content_def split: if_splits sum.splits)

text \<open>
  When \<^verbatim>\<open>codecs.lookup\<close> finds the codec, or raises \<^verbatim>\<open>LookupError\<close> or \<^verbatim>\<open>TypeError\<close>, the
  constructor returns, with the canonical name in the first case and \<^verbatim>\<open>None\<close> otherwise.
\<close>

lemma Subtitle_init_validates_encoding:
  assumes "en = None \<or> en = Some [] \<or> (\<exists>cd. codecs_lookup E (the en) = Inr cd)
           \<or> codecs_lookup E (the en) = Inl LookupError
           \<or> codecs_lookup E (the en) = Inl TypeError"
  shows "\<exists>self. Subtitle_init E pn lang sid hi fo lk en fm ra em gu = Inr self \<and>
           encoding self =
             (if en = None \<or> en = Some [] then None
              else case codecs_lookup E (the en) of
                     Inr cd \<Rightarrow> Some (codec_name cd)
                   | Inl e \<Rightarrow> None)"
  using assms
  by (auto simp: Subtitle_init_def Let_def split: option.splits sum.splits)

text \<open>Any other exception of \<^verbatim>\<open>codecs.lookup\<close> leaves the constructor.\<close>

lemma Subtitle_init_other_exception:
  assumes "codecs_lookup E name = Inl e" and "e \<noteq> TypeError" and "e \<noteq> LookupError"
    and "name \<noteq> []"
  shows "Subtitle_init E pn lang sid hi fo lk (Some name) fm ra em gu = Inl e"
  using assms by (simp add: Subtitle_init_def)

text \<open>
  The test environment and the two example objects, evaluated.
\<close>

lemma test_env_sel:
  "codecs_lookup test_env = test_codecs_lookup"
  "str_encode test_env = test_str_encode"
  "SSAFile_from_string test_env = test_SSAFile_from_string"
  "srt_compose_parse test_env = test_srt_compose_parse"
  by (simp_all add: test_env_def)

lemmas test_lookup_defs = test_env_sel test_codecs_lookup_def test_registry_def

lemma srt_example_facts:
  "strict_decode (seven_bit_codec n) srt_bytes = Some srt_text"
  "replace_decode (seven_bit_codec n) srt_bytes = srt_text"
  "str_encode test_env srt_text ''latin-1'' = Inr srt_bytes"
  "find_encoding_with_bom srt_bytes = []"
  "isprintable test_env (strip_cr_lf_tab srt_text)"
  "prefix [0x31] srt_text"
  "srt_bytes \<noteq> []"
  "srt_text \<noteq> []"
  by (simp_all add: seven_bit_codec_def latin_1_codec_def find_encoding_with_bom_def BOM_defs
      isprintable_def strip_cr_lf_tab_def remove_char_def test_env_def test_str_encode_def
      test_codecs_lookup_def test_registry_def srt_bytes_def srt_text_def srt_example_def)

lemma loaded_fields:
  "priv_is_valid loaded_subtitle = None"
  "subtitle_format loaded_subtitle = None"
  "fps loaded_subtitle = None"
  "content loaded_subtitle = Some srt_bytes"
  "language loaded_subtitle = english"
  by (simp_all add: loaded_subtitle_def fresh_subtitle_def content_def)

lemma loaded_text:
  "text_prop test_env loaded_subtitle =
     Inr (srt_text, loaded_subtitle\<lparr>priv_is_decoded := True, priv_text := srt_text\<rparr>)"
  by (simp add: text_prop_def decode_content_def content_def bytes_decode_replace_def
      loaded_subtitle_def fresh_subtitle_def test_lookup_defs srt_example_facts)

lemma test_env_retry:
  "\<forall>t f. SSAFile_from_string test_env t f (Some 24) \<noteq> Inl UnknownFPSError"
  by (simp add: test_env_defs)

lemma loaded_format:
  "get_subtitle_format test_env srt_text None None = Some (Some ''srt'')"
  by (subst get_subtitle_format.simps)
     (simp add: test_env_sel test_SSAFile_from_string_def srt_example_facts)

lemma fresh_guess:
  "guess_encoding test_env
     (fresh_subtitle\<lparr>priv_is_decoded := True, priv_is_valid := Some False,
                     priv_content := Some srt_bytes\<rparr>) = Inr (Some ''utf-8'')"
  by (simp add: guess_encoding_def content_def bytes_decode_def fresh_subtitle_def
      test_lookup_defs srt_example_facts)

lemma fresh_init:
  "Subtitle_init test_env ''test'' english ''abc'' None None None None None None False True
     = Inr fresh_subtitle"
  by (simp add: Subtitle_init_def fresh_subtitle_def from_flags_def)

lemma fresh_set:
  "content_setter test_env (Some srt_bytes) fresh_subtitle = Inr ((), loaded_subtitle)"
  by (simp add: content_setter_def clear_content_def guess_encoding_def content_def
      bytes_decode_def loaded_subtitle_def fresh_subtitle_def test_lookup_defs srt_example_facts)

lemma fresh_set_none:
  "content_setter test_env None fresh_subtitle = Inr ((), fresh_subtitle)"
  by (simp add: content_setter_def clear_content_def guess_encoding_def content_def
      fresh_subtitle_def)

text \<open>The example object is valid, and \<open>validated_subtitle\<close> is what the check leaves.\<close>

lemma loaded_is_valid:
  "is_valid test_env False loaded_subtitle = Some (Inr (True, validated_subtitle))"
  by (simp add: is_valid_def check_is_valid_def guess_format_block_def srt_block_def
      parse_srt_def loaded_text text_prop_decoded loaded_format loaded_fields
      test_env_sel test_srt_compose_parse_def srt_example_facts validated_subtitle_def)

lemma validated_fields:
  "priv_is_decoded validated_subtitle"
  "priv_text validated_subtitle = srt_text"
  "priv_is_valid validated_subtitle = Some True"
  by (simp_all add: validated_subtitle_def)

text \<open>
  \<^verbatim>\<open>is_valid\<close> stores the verdict it returns and returns a stored verdict as it is. Reading
  the text, \<^verbatim>\<open>parse_srt\<close>, \<^verbatim>\<open>reencode\<close> and the assignment of a public attribute do not
  touch the validity flag, whether they return or raise.
\<close>

lemma is_valid_stores_verdict:
  "is_valid E auto_fix_srt self = Some (Inr (b, s')) \<Longrightarrow> priv_is_valid s' = Some b"
  by (auto simp: is_valid_def split: option.splits sum.splits)

lemma is_valid_stored:
  "priv_is_valid self = Some b \<Longrightarrow> is_valid E auto_fix_srt self = Some (Inr (b, self))"
  by (simp add: is_valid_def)

lemma text_prop_keeps_validity:
  "priv_is_valid (state_of (text_prop E self)) = priv_is_valid self"
  by (auto simp: state_of_def text_prop_def decode_content_def Let_def
           split: option.splits sum.splits)

lemma parse_srt_keeps_validity:
  "priv_is_valid (state_of (parse_srt E self)) = priv_is_valid self"
proof (cases "text_prop E self")
  case (Inl x)
  then show ?thesis
    using text_prop_keeps_validity [of E self]
    by (cases x) (simp add: parse_srt_def state_of_def)
next
  case (Inr y)
  then show ?thesis
    using text_prop_keeps_validity [of E self]
    by (cases y) (auto simp: parse_srt_def state_of_def split: sum.splits)
qed

lemma reencode_keeps_validity:
  "priv_is_valid (state_of (reencode E enc self)) = priv_is_valid self"
proof (cases "text_prop E self")
  case (Inl x)
  then show ?thesis
    using text_prop_keeps_validity [of E self]
    by (cases x) (simp add: reencode_def state_of_def)
next
  case (Inr y)
  then show ?thesis
    using text_prop_keeps_validity [of E self]
    by (cases y) (auto simp: reencode_def state_of_def split: sum.splits)
qed

lemma after_call_keeps_validity:
  assumes "keeps_validity c" and "priv_is_valid self = Some b"
  shows "\<exists>s. after_call E c self = Some s \<and> priv_is_valid s = Some b"
proof (cases c)
  case (Call_is_valid auto_fix_srt)
  then show ?thesis
    using is_valid_stored [OF assms(2), of E auto_fix_srt] assms(2) by (simp add: state_of_def)
next
  case Call_text
  then show ?thesis using assms(2) by (simp add: text_prop_keeps_validity)
next
  case Call_parse_srt
  then show ?thesis using assms(2) by (simp add: parse_srt_keeps_validity)
next
  case (Call_reencode enc)
  then show ?thesis using assms(2) by (simp add: reencode_keeps_validity)
next
  case Call_clear_content
  then show ?thesis using assms(1) by simp
next
  case (Call_set_content v)
  then show ?thesis using assms(1) by simp
qed (use assms(2) in simp_all)

lemma after_calls_keep_validity:
  assumes "list_all keeps_validity calls" and "priv_is_valid self = Some b"
  shows "\<exists>s. after_calls E calls self = Some s \<and> priv_is_valid s = Some b"
  using assms
proof (induction calls arbitrary: self)
  case Nil
  then show ?case by simp
next
  case (Cons c calls)
  from Cons.prems obtain s where step: "after_call E c self = Some s"
    and kept: "priv_is_valid s = Some b"
    using after_call_keeps_validity [of c self b E] by auto
  from Cons.prems have "list_all keeps_validity calls" by simp
  from Cons.IH [OF this kept] show ?case
    using step by simp
qed

section \<open>Claims\<close>

text \<open>
  Claim C1. For every byte content and language, \<^verbatim>\<open>guess_encoding\<close> takes the candidates
  \<^verbatim>\<open>'utf-8'\<close>, then the encodings matched by the byte-order mark, then the encodings of
  the language, and returns the first candidate that decodes without error to a text that,
  once CR, LF and TAB are removed, is printable throughout. A candidate that decodes to a
  text that is not printable is skipped like one that does not decode. When no candidate
  passes, the result is what chardet answers, which may be \<^verbatim>\<open>None\<close>. The candidate names
  are fixed in the source and are all registered codecs of Python: this is the hypothesis on
  the registry.
\<close>

theorem guess_encoding_first_passing_candidate:
  assumes "content self = Some c"
    and "\<forall>enc \<in> set ([''utf-8''] @ find_encoding_with_bom c
                        @ find_potential_encodings (language self)).
           \<exists>cd. codecs_lookup E enc = Inr cd"
  shows "guess_encoding E self =
         Inr (case List.find
                     (\<lambda>enc. case bytes_decode E c enc of
                               Inl e \<Rightarrow> False
                             | Inr decoded \<Rightarrow>
                                 list_all (isprintable_char E)
                                   (filter (\<lambda>x. x \<notin> {13, 10, 9}) decoded))
                     ([''utf-8''] @ find_encoding_with_bom c
                        @ find_potential_encodings (language self)) of
                Some enc \<Rightarrow> Some enc
              | None \<Rightarrow> chardet_detect E c)"
  using assms(1) guess_encoding_loop_find [OF assms(2), of c]
  by (simp add: guess_encoding_def split: option.split)

theorem guess_encoding_first_passing_candidate_witness:
  "content loaded_subtitle = Some srt_bytes \<and>
   list_all (\<lambda>enc. \<exists>cd. codecs_lookup test_env enc = Inr cd)
     ([''utf-8''] @ find_encoding_with_bom srt_bytes
        @ find_potential_encodings (language loaded_subtitle)) \<and>
   guess_encoding test_env loaded_subtitle = Inr (Some ''utf-8'')"
proof -
  have h1: "content loaded_subtitle = Some srt_bytes"
    by (simp add: loaded_fields)
  have h2: "\<forall>enc \<in> set ([''utf-8''] @ find_encoding_with_bom srt_bytes
                    @ find_potential_encodings (language loaded_subtitle)).
      \<exists>cd. codecs_lookup test_env enc = Inr cd"
    by (simp add: find_potential_encodings_def loaded_fields english_def test_lookup_defs
        srt_example_facts)
  have decoded: "bytes_decode test_env srt_bytes ''utf-8'' = Inr srt_text"
    by (simp add: bytes_decode_def test_lookup_defs srt_example_facts)
  have printable: "list_all (isprintable_char test_env) (filter (\<lambda>x. x \<notin> {13, 10, 9}) srt_text)"
    using srt_example_facts(5) by (simp add: isprintable_def strip_cr_lf_tab_filter)
  have guessed: "guess_encoding test_env loaded_subtitle = Inr (Some ''utf-8'')"
    using guess_encoding_first_passing_candidate [OF h1 h2] decoded printable by simp
  have h2': "list_all (\<lambda>enc. \<exists>cd. codecs_lookup test_env enc = Inr cd)
     ([''utf-8''] @ find_encoding_with_bom srt_bytes
        @ find_potential_encodings (language loaded_subtitle))"
    using h2 by (simp only: list_all_iff)
  from h1 h2' guessed show ?thesis by (intro conjI)
qed

text \<open>
  Claim C2, amended. Let the text read return the text \<open>txt\<close>. Then \<^verbatim>\<open>reencode\<close> returns
  \<^verbatim>\<open>False\<close> when the text is empty or encoding it raises \<^verbatim>\<open>UnicodeEncodeError\<close>, and then
  the encoding, the content and the text are as before. When encoding the text returns
  bytes, it returns \<^verbatim>\<open>True\<close>, with the encoding set to the given name and the content to
  those bytes, the text still unchanged. It raises exactly when the text is not empty and
  encoding it raises an exception other than \<^verbatim>\<open>UnicodeEncodeError\<close>, and it raises that
  exception.
\<close>

theorem reencode_outcomes:
  assumes "text_prop E self = Inr (txt, s1)"
  shows "reencode E enc self =
           (if txt = [] then Inr (False, s1)
            else case str_encode E txt enc of
                   Inr new_content \<Rightarrow>
                     Inr (True, s1\<lparr>encoding := Some enc, priv_content := Some new_content\<rparr>)
                 | Inl e \<Rightarrow>
                     if e = UnicodeEncodeError then Inr (False, s1) else Inl (e, s1)) \<and>
         ((\<exists>x. reencode E enc self = Inl x) \<longleftrightarrow>
            txt \<noteq> [] \<and> (\<exists>e. str_encode E txt enc = Inl e \<and> e \<noteq> UnicodeEncodeError)) \<and>
         encoding s1 = encoding self \<and>
         priv_content s1 = priv_content self \<and>
         text_prop E s1 = Inr (txt, s1) \<and>
         text_prop E (s1\<lparr>encoding := Some enc, priv_content := Some new_content\<rparr>) =
           Inr (txt, s1\<lparr>encoding := Some enc, priv_content := Some new_content\<rparr>)"
proof -
  have dec: "priv_is_decoded s1" and ptx: "priv_text s1 = txt"
    using text_prop_returns(2,3) [OF assms(1)] by simp_all
  have a: "reencode E enc self =
           (if txt = [] then Inr (False, s1)
            else case str_encode E txt enc of
                   Inr new_content \<Rightarrow>
                     Inr (True, s1\<lparr>encoding := Some enc, priv_content := Some new_content\<rparr>)
                 | Inl e \<Rightarrow>
                     if e = UnicodeEncodeError then Inr (False, s1) else Inl (e, s1))"
    using assms by (simp add: reencode_def split: sum.splits)
  have r: "(\<exists>x. reencode E enc self = Inl x) \<longleftrightarrow>
            txt \<noteq> [] \<and> (\<exists>e. str_encode E txt enc = Inl e \<and> e \<noteq> UnicodeEncodeError)"
    unfolding a by (cases "str_encode E txt enc") auto
  have b: "encoding s1 = encoding self" "priv_content s1 = priv_content self"
    using text_prop_frame [OF assms(1)] by simp_all
  have c: "text_prop E s1 = Inr (txt, s1)"
    by (rule text_prop_again [OF assms(1)])
  have d: "text_prop E (s1\<lparr>encoding := Some enc, priv_content := Some new_content\<rparr>) =
           Inr (txt, s1\<lparr>encoding := Some enc, priv_content := Some new_content\<rparr>)"
    using dec ptx by (simp add: text_prop_def)
  from a r b c d show ?thesis by (intro conjI)
qed

theorem reencode_outcomes_witness:
  "text_prop test_env loaded_subtitle =
     Inr (srt_text, loaded_subtitle\<lparr>priv_is_decoded := True, priv_text := srt_text\<rparr>) \<and>
   str_encode test_env srt_text ''latin-1'' = Inr srt_bytes \<and>
   reencode test_env ''latin-1'' loaded_subtitle =
     Inr (True, loaded_subtitle\<lparr>priv_is_decoded := True, priv_text := srt_text,
                                encoding := Some ''latin-1'',
                                priv_content := Some srt_bytes\<rparr>)"
  using reencode_outcomes [OF loaded_text, of "''latin-1''"] loaded_text
  by (simp add: srt_example_facts)

text \<open>
  Claim C2 as stated does not hold: \<^verbatim>\<open>reencode\<close> catches \<^verbatim>\<open>UnicodeEncodeError\<close> only. On a
  subtitle with a text that is not empty, a target encoding that Python does not know makes
  \<^verbatim>\<open>text.encode\<close> raise \<^verbatim>\<open>LookupError\<close>, and \<^verbatim>\<open>reencode\<close> raises it: it returns neither
  \<^verbatim>\<open>False\<close> nor \<^verbatim>\<open>True\<close>.
\<close>

theorem reencode_unknown_encoding_raises:
  "map_sum fst fst (reencode test_env ''no-such-codec'' loaded_subtitle) = Inl LookupError"
  by (simp add: reencode_def loaded_text test_env_sel test_str_encode_def test_codecs_lookup_def
      test_registry_def srt_example_facts)

text \<open>
  Claim C3, amended. Two instances constructed one after the other with the same provider
  name have the same hash when their ids are the same, whatever content is assigned to
  either. Equality is identity of objects, since the class defines no \<^verbatim>\<open>__eq__\<close>: each
  instance is equal to itself, and the two instances are not equal, whether or not their
  ids differ.
\<close>

theorem Subtitle_same_id_hash_equal_objects_distinct:
  assumes "new_Subtitle E h pn lang1 sid1 hi1 fo1 lk1 en1 fm1 ra1 em1 gu1 = Inr (a, h1)"
    and "new_Subtitle E h1 pn lang2 sid2 hi2 fo2 lk2 en2 fm2 ra2 em2 gu2 = Inr (b, h2)"
    and "content_setter E c1 (h2 ! a) = Inr ((), sa)"
    and "content_setter E c2 (h2 ! b) = Inr ((), sb)"
  shows "(sid1 = sid2 \<longrightarrow> Subtitle_hash E sa = Subtitle_hash E sb) \<and>
         \<not> Subtitle_eq a b \<and> Subtitle_eq a a \<and> Subtitle_eq b b"
proof -
  obtain s1 where s1: "Subtitle_init E pn lang1 sid1 hi1 fo1 lk1 en1 fm1 ra1 em1 gu1 = Inr s1"
    and a: "a = length h" and h1: "h1 = h @ [s1]"
    using assms(1) by (auto simp: new_Subtitle_def split: sum.splits)
  obtain s2 where s2: "Subtitle_init E pn lang2 sid2 hi2 fo2 lk2 en2 fm2 ra2 em2 gu2 = Inr s2"
    and b: "b = length h1" and h2: "h2 = h1 @ [s2]"
    using assms(2) by (auto simp: new_Subtitle_def split: sum.splits)
  have obj_a: "h2 ! a = s1" and obj_b: "h2 ! b = s2"
    using a b h1 h2 by (simp_all add: nth_append)
  have "provider_name sa = pn" "subtitle_id sa = sid1"
    using content_setter_identity [OF assms(3)] Subtitle_init_identity [OF s1] obj_a by simp_all
  moreover have "provider_name sb = pn" "subtitle_id sb = sid2"
    using content_setter_identity [OF assms(4)] Subtitle_init_identity [OF s2] obj_b by simp_all
  ultimately have "sid1 = sid2 \<Longrightarrow> Subtitle_hash E sa = Subtitle_hash E sb"
    by (simp add: Subtitle_hash_def id_prop_def)
  moreover have "a \<noteq> b" using a b h1 by simp
  ultimately show ?thesis by (simp add: Subtitle_eq_def)
qed

theorem Subtitle_same_id_hash_equal_objects_distinct_witness:
  "new_Subtitle test_env [] ''test'' english ''abc'' None None None None None None False True
     = Inr (0, [fresh_subtitle]) \<and>
   new_Subtitle test_env [fresh_subtitle] ''test'' english ''abc'' None None None None None None
     False True = Inr (1, [fresh_subtitle, fresh_subtitle]) \<and>
   content_setter test_env (Some srt_bytes) ([fresh_subtitle, fresh_subtitle] ! 0)
     = Inr ((), loaded_subtitle) \<and>
   content_setter test_env None ([fresh_subtitle, fresh_subtitle] ! 1)
     = Inr ((), fresh_subtitle) \<and>
   Subtitle_hash test_env loaded_subtitle = Subtitle_hash test_env fresh_subtitle \<and>
   \<not> Subtitle_eq 0 1"
proof -
  have n1: "new_Subtitle test_env [] ''test'' english ''abc'' None None None None None None
     False True = Inr (0, [fresh_subtitle])"
    by (simp add: new_Subtitle_def fresh_init)
  have n2: "new_Subtitle test_env [fresh_subtitle] ''test'' english ''abc'' None None None None
     None None False True = Inr (1, [fresh_subtitle, fresh_subtitle])"
    by (simp add: new_Subtitle_def fresh_init)
  have c1: "content_setter test_env (Some srt_bytes) ([fresh_subtitle, fresh_subtitle] ! 0)
     = Inr ((), loaded_subtitle)"
    by (simp add: fresh_set)
  have c2: "content_setter test_env None ([fresh_subtitle, fresh_subtitle] ! 1)
     = Inr ((), fresh_subtitle)"
    by (simp add: fresh_set_none)
  show ?thesis
    using Subtitle_same_id_hash_equal_objects_distinct [OF n1 n2 c1 c2] n1 n2 c1 c2
    by simp
qed

text \<open>
  Claim C3 as stated does not hold: two instances constructed with the same provider name
  and the same id are two objects, and they are not equal.
\<close>

theorem Subtitle_equal_ids_not_equal:
  "new_Subtitle test_env [] ''test'' english ''abc'' None None None None None None False True
     = Inr (0, [fresh_subtitle]) \<and>
   new_Subtitle test_env [fresh_subtitle] ''test'' english ''abc'' None None None None None None
     False True = Inr (1, [fresh_subtitle, fresh_subtitle]) \<and>
   \<not> Subtitle_eq 0 1"
  by (simp add: new_Subtitle_def fresh_init Subtitle_eq_def)

text \<open>
  Claim C4. On the first validity check of an object whose text read returns \<open>txt\<close>,
  \<^verbatim>\<open>is_valid\<close> returns \<^verbatim>\<open>False\<close> when \<open>txt\<close> is empty, and when no format is preset and the
  detector gives none. When the preset or detected format is \<^verbatim>\<open>srt\<close>, it returns \<^verbatim>\<open>True\<close>
  exactly when parsing and recomposing succeeds, and with \<^verbatim>\<open>auto_fix_srt\<close> the cached text
  becomes the recomposed one. Any other format gives \<^verbatim>\<open>True\<close> with no further check. In
  each case the detected format and the verdict are stored. The detector is taken not to ask
  for a frame rate when it is given one, so that format detection returns.
\<close>

theorem is_valid_first_check:
  assumes "priv_is_valid self = None"
    and "text_prop E self = Inr (txt, s1)"
    and "\<forall>t f. SSAFile_from_string E t f (Some 24) \<noteq> Inl UnknownFPSError"
  shows "\<exists>guessed. get_subtitle_format E txt None (fps self) = Some guessed \<and>
     is_valid E auto_fix_srt self = Some (Inr
       (let fmt = (if subtitle_format self = None then guessed else subtitle_format self) in
        if txt = [] then (False, s1\<lparr>priv_is_valid := Some False\<rparr>)
        else if fmt = None \<or> (subtitle_format self = None \<and> fmt = Some []) then
          (False, s1\<lparr>priv_is_valid := Some False\<rparr>)
        else if fmt = Some ''srt'' then
          (case srt_compose_parse E txt of
             Inl e \<Rightarrow> (False, s1\<lparr>subtitle_format := fmt, priv_is_valid := Some False\<rparr>)
           | Inr parsed \<Rightarrow>
               (True, s1\<lparr>subtitle_format := fmt,
                         priv_text := (if auto_fix_srt then parsed else txt),
                         priv_is_valid := Some True\<rparr>))
        else (True, s1\<lparr>subtitle_format := fmt, priv_is_valid := Some True\<rparr>)))"
proof -
  obtain guessed where g: "get_subtitle_format E txt None (fps self) = Some guessed"
    using get_subtitle_format_returns [OF assms(3)] by blast
  have dec: "priv_is_decoded s1" and ptx: "priv_text s1 = txt"
    using text_prop_returns(2,3) [OF assms(2)] by simp_all
  have fr: "subtitle_format s1 = subtitle_format self" "fps s1 = fps self"
    using text_prop_frame [OF assms(2)] by simp_all
  have again: "text_prop E s1 = Inr (txt, s1)"
    by (rule text_prop_again [OF assms(2)])
  have upd: "text_prop E (s1\<lparr>subtitle_format := f\<rparr>) = Inr (txt, s1\<lparr>subtitle_format := f\<rparr>)" for f
    using dec ptx by (simp add: text_prop_def)
  have same: "s1\<lparr>subtitle_format := subtitle_format self\<rparr> = s1"
    using fr by simp
  have notxt: "s1\<lparr>priv_text := txt\<rparr> = s1"
    using ptx by simp
  show ?thesis
  proof (intro exI conjI)
    show "get_subtitle_format E txt None (fps self) = Some guessed" by (rule g)
  next
    show "is_valid E auto_fix_srt self = Some (Inr
       (let fmt = (if subtitle_format self = None then guessed else subtitle_format self) in
        if txt = [] then (False, s1\<lparr>priv_is_valid := Some False\<rparr>)
        else if fmt = None \<or> (subtitle_format self = None \<and> fmt = Some []) then
          (False, s1\<lparr>priv_is_valid := Some False\<rparr>)
        else if fmt = Some ''srt'' then
          (case srt_compose_parse E txt of
             Inl e \<Rightarrow> (False, s1\<lparr>subtitle_format := fmt, priv_is_valid := Some False\<rparr>)
           | Inr parsed \<Rightarrow>
               (True, s1\<lparr>subtitle_format := fmt,
                         priv_text := (if auto_fix_srt then parsed else txt),
                         priv_is_valid := Some True\<rparr>))
        else (True, s1\<lparr>subtitle_format := fmt, priv_is_valid := Some True\<rparr>)))"
    proof (cases "txt = []")
      case True
      then show ?thesis
        using assms(1,2) by (simp add: is_valid_def check_is_valid_def)
    next
      case False
      show ?thesis
      proof (cases "subtitle_format self")
        case None
        then show ?thesis
          using False assms(1,2) again g fr upd ptx
          by (cases guessed)
             (auto simp: is_valid_def check_is_valid_def guess_format_block_def srt_block_def
                         parse_srt_def Let_def
                   split: sum.splits)
      next
        case (Some f)
        then show ?thesis
          using False assms(1,2) again fr same ptx
          by (auto simp: is_valid_def check_is_valid_def guess_format_block_def srt_block_def
                         parse_srt_def Let_def
                   split: sum.splits)
      qed
    qed
  qed
qed

theorem is_valid_first_check_witness:
  "priv_is_valid loaded_subtitle = None \<and>
   text_prop test_env loaded_subtitle =
     Inr (srt_text,
          loaded_subtitle\<lparr>priv_is_decoded := True, priv_text := srt_text\<rparr>) \<and>
   (\<forall>t f. SSAFile_from_string test_env t f (Some 24) \<noteq> Inl UnknownFPSError) \<and>
   is_valid test_env True loaded_subtitle =
     Some (Inr (True,
       loaded_subtitle\<lparr>priv_is_decoded := True, priv_text := srt_text @ [0x0A],
                       subtitle_format := Some ''srt'', priv_is_valid := Some True\<rparr>))"
proof -
  have h1: "priv_is_valid loaded_subtitle = None"
    by (simp add: loaded_fields)
  have rt: "srt_compose_parse test_env srt_text = Inr (srt_text @ [0x0A])"
    by (simp add: test_env_sel test_srt_compose_parse_def srt_example_facts)
  show ?thesis
    using is_valid_first_check [OF h1 loaded_text test_env_retry, of True]
    by (simp add: loaded_text test_env_retry loaded_fields loaded_format rt srt_example_facts)
qed

text \<open>
  Claim C5. Assigning \<^verbatim>\<open>content\<close> stores the bytes and clears the cached text, the decoded
  flag and the validity flag, so that the next text read is the decoding of the new bytes.
  The encoding is guessed exactly when auto-guessing is enabled and the encoding is
  \<^verbatim>\<open>None\<close>; otherwise the encoding stays as it was. The setter returns whenever the guess
  it asks for does.
\<close>

theorem content_setter_clears_and_guesses:
  assumes "priv_guess_encoding self \<and> encoding self = None \<longrightarrow>
           guess_encoding E (self\<lparr>priv_content := v\<rparr>) = Inr g"
  shows "\<exists>s'. content_setter E v self = Inr ((), s') \<and>
           priv_content s' = v \<and>
           priv_text s' = [] \<and>
           \<not> priv_is_decoded s' \<and>
           priv_is_valid s' = None \<and>
           encoding s' = (if priv_guess_encoding self \<and> encoding self = None then g
                          else encoding self) \<and>
           map_sum fst fst (text_prop E s') =
             (if v = None \<or> v = Some [] \<or> encoding s' = None \<or> encoding s' = Some []
              then Inr []
              else bytes_decode_replace E (the v) (the (encoding s')))"
proof -
  let ?trigger = "priv_guess_encoding self \<and> encoding self = None"
  let ?s2 = "(clear_content self)\<lparr>priv_content := v\<rparr>"
  let ?s' = "?s2\<lparr>encoding := (if ?trigger then g else encoding self)\<rparr>"
  have "guess_encoding E ?s2 = guess_encoding E (self\<lparr>priv_content := v\<rparr>)"
    by (rule guess_encoding_cong) (simp_all add: content_def clear_content_def)
  then have gs: "?trigger \<Longrightarrow> guess_encoding E ?s2 = Inr g"
    using assms by simp
  have set: "content_setter E v self = Inr ((), ?s')"
  proof (cases ?trigger)
    case True
    then show ?thesis
      using gs by (simp add: content_setter_def Let_def clear_content_def)
  next
    case False
    then have "?s' = ?s2" by (auto simp: clear_content_def)
    then show ?thesis
      using False by (auto simp: content_setter_def Let_def clear_content_def)
  qed
  have fresh: "\<not> priv_is_decoded ?s'"
    by (simp add: clear_content_def)
  have fields: "priv_content ?s' = v" "priv_text ?s' = []" "priv_is_valid ?s' = None"
    "encoding ?s' = (if ?trigger then g else encoding self)"
    by (simp_all add: clear_content_def)
  have read: "map_sum fst fst (text_prop E ?s') =
             (if v = None \<or> v = Some [] \<or> encoding ?s' = None \<or> encoding ?s' = Some []
              then Inr []
              else bytes_decode_replace E (the v) (the (encoding ?s')))"
    using text_prop_fresh_decode [OF fresh, of E] fields(1) by simp
  show ?thesis
    using set fresh fields(1,2,3,4) read by blast
qed

theorem content_setter_clears_and_guesses_witness:
  "guess_encoding test_env
     (fresh_subtitle\<lparr>priv_is_decoded := True, priv_is_valid := Some False,
                     priv_content := Some srt_bytes\<rparr>) = Inr (Some ''utf-8'') \<and>
   content_setter test_env (Some srt_bytes)
     (fresh_subtitle\<lparr>priv_is_decoded := True, priv_is_valid := Some False\<rparr>) =
     Inr ((), loaded_subtitle) \<and>
   map_sum fst fst (text_prop test_env loaded_subtitle) = Inr srt_text"
proof -
  let ?old = "fresh_subtitle\<lparr>priv_is_decoded := True, priv_is_valid := Some False\<rparr>"
  have h: "priv_guess_encoding ?old \<and> encoding ?old = None \<longrightarrow>
           guess_encoding test_env (?old\<lparr>priv_content := Some srt_bytes\<rparr>)
             = Inr (Some ''utf-8'')"
    using fresh_guess by simp
  have set: "content_setter test_env (Some srt_bytes) ?old = Inr ((), loaded_subtitle)"
    by (simp add: content_setter_def clear_content_def guess_encoding_def content_def
        bytes_decode_def loaded_subtitle_def fresh_subtitle_def test_lookup_defs
        srt_example_facts)
  have dec: "bytes_decode_replace test_env srt_bytes ''utf-8'' = Inr srt_text"
    by (simp add: bytes_decode_replace_def test_lookup_defs srt_example_facts)
  have trig: "priv_guess_encoding ?old \<and> encoding ?old = None"
    by (simp add: fresh_subtitle_def)
  show ?thesis
    using content_setter_clears_and_guesses [OF h] fresh_guess set trig dec
    by (auto simp: srt_example_facts)
qed

text \<open>
  Claim C6. \<^verbatim>\<open>find_encoding_with_bom\<close> returns at most one name: the one paired with the
  first mark, in the order UTF-8, UTF-32BE, UTF-32LE, UTF-16BE, UTF-16LE, that the data
  starts with, and the empty list when the data starts with none. Data that starts with the
  UTF-32LE mark is reported as \<^verbatim>\<open>utf-32-le\<close>, never as \<^verbatim>\<open>utf-16-le\<close>.
\<close>

theorem find_encoding_with_bom_first_mark:
  "length (find_encoding_with_bom data) \<le> 1 \<and>
   find_encoding_with_bom data =
     (if prefix BOM_UTF8 data then [''utf-8-sig'']
      else if prefix BOM_UTF32_BE data then [''utf-32-be'']
      else if prefix BOM_UTF32_LE data then [''utf-32-le'']
      else if prefix BOM_UTF16_BE data then [''utf-16-be'']
      else if prefix BOM_UTF16_LE data then [''utf-16-le'']
      else []) \<and>
   find_encoding_with_bom (BOM_UTF32_LE @ rest) = [''utf-32-le''] \<and>
   find_encoding_with_bom (BOM_UTF32_LE @ rest) \<noteq> [''utf-16-le'']"
proof -
  have a: "length (find_encoding_with_bom data) \<le> 1"
    by (simp add: find_encoding_with_bom_def)
  have b: "find_encoding_with_bom data =
     (if prefix BOM_UTF8 data then [''utf-8-sig'']
      else if prefix BOM_UTF32_BE data then [''utf-32-be'']
      else if prefix BOM_UTF32_LE data then [''utf-32-le'']
      else if prefix BOM_UTF16_BE data then [''utf-16-be'']
      else if prefix BOM_UTF16_LE data then [''utf-16-le'']
      else [])"
    by (simp add: find_encoding_with_bom_def BOMS_def)
  have c: "find_encoding_with_bom (BOM_UTF32_LE @ rest) = [''utf-32-le'']"
    by (simp add: find_encoding_with_bom_def BOM_defs)
  from a b c show ?thesis by simp
qed

text \<open>
  Claim C7. \<^verbatim>\<open>LanguageType.from_flags\<close> on the nine pairs of optional booleans: hearing
  impaired when that flag is true; otherwise forced when that flag is true; otherwise normal
  when one of the flags is false; unknown when both are unset.
\<close>

theorem from_flags_priority:
  "from_flags (Some True) forced = HEARING_IMPAIRED \<and>
   from_flags (Some False) (Some True) = FORCED \<and>
   from_flags None (Some True) = FORCED \<and>
   from_flags (Some False) (Some False) = NORMAL \<and>
   from_flags (Some False) None = NORMAL \<and>
   from_flags None (Some False) = NORMAL \<and>
   from_flags None None = UNKNOWN"
  by (simp add: from_flags_def)

text \<open>
  Claim C8. \<^verbatim>\<open>get_path\<close> is the video name without its extension, then the suffix (empty
  when \<^verbatim>\<open>single\<close> is set; otherwise the part for the language type followed by the part
  for the language), then the extension, which defaults to the entry of the format in
  \<^verbatim>\<open>FORMAT_TO_EXTENSION\<close> and to \<^verbatim>\<open>.srt\<close> when there is none. For the video
  \<^verbatim>\<open>movie.mkv\<close> and the format \<^verbatim>\<open>srt\<close> this gives \<^verbatim>\<open>movie.srt\<close> with \<^verbatim>\<open>single\<close>,
  \<^verbatim>\<open>movie.en.srt\<close> for English without the type suffix, and \<^verbatim>\<open>movie.hi.en.srt\<close> for a
  hearing-impaired English subtitle with the type suffix.
\<close>

theorem get_path_layout:
  "get_path self video_name single extension language_type_suffix language_format =
     fst (splitext video_name)
     @ (if single then []
        else get_subtitle_suffix (language self) language_format (language_type self)
               language_type_suffix)
     @ (case extension of
          Some ext \<Rightarrow> ext
        | None \<Rightarrow>
            (case subtitle_format self of
               None \<Rightarrow> ''.srt''
             | Some fmt \<Rightarrow> (case FORMAT_TO_EXTENSION fmt of None \<Rightarrow> ''.srt'' | Some ext \<Rightarrow> ext))) \<and>
   get_subtitle_suffix lang language_format ltype True =
     (if ltype = HEARING_IMPAIRED then ''.hi''
      else if ltype = FORCED then ''.forced''
      else [])
     @ get_subtitle_suffix lang language_format ltype False \<and>
   get_path (self\<lparr>subtitle_format := Some ''srt''\<rparr>) ''movie.mkv'' True None
     language_type_suffix language_format = ''movie.srt'' \<and>
   get_path (self\<lparr>subtitle_format := Some ''srt'', language := english\<rparr>) ''movie.mkv'' False None
     False ''alpha2'' = ''movie.en.srt'' \<and>
   get_path (self\<lparr>subtitle_format := Some ''srt'', language := english,
                   language_type := HEARING_IMPAIRED\<rparr>) ''movie.mkv'' False None
     True ''alpha2'' = ''movie.hi.en.srt''"
proof -
  have root: "fst (splitext ''movie.mkv'') = ''movie''"
    by (simp add: splitext_def rfind_def)
  have a: "get_path self video_name single extension language_type_suffix language_format =
     fst (splitext video_name)
     @ (if single then []
        else get_subtitle_suffix (language self) language_format (language_type self)
               language_type_suffix)
     @ (case extension of
          Some ext \<Rightarrow> ext
        | None \<Rightarrow>
            (case subtitle_format self of
               None \<Rightarrow> ''.srt''
             | Some fmt \<Rightarrow> (case FORMAT_TO_EXTENSION fmt of None \<Rightarrow> ''.srt'' | Some ext \<Rightarrow> ext)))"
    for self video_name single extension language_type_suffix language_format
    by (simp add: get_path_def get_subtitle_path_def)
  have b: "get_subtitle_suffix lang language_format ltype True =
     (if ltype = HEARING_IMPAIRED then ''.hi''
      else if ltype = FORCED then ''.forced''
      else [])
     @ get_subtitle_suffix lang language_format ltype False"
    by (simp add: get_subtitle_suffix_def Let_def)
  have ext: "FORMAT_TO_EXTENSION ''srt'' = Some ''.srt''"
    by (simp add: FORMAT_TO_EXTENSION_def)
  have en: "get_subtitle_suffix english ''alpha2'' lt False = ''.en''" for lt
    by (simp add: get_subtitle_suffix_def english_def)
  have hi: "get_subtitle_suffix english ''alpha2'' HEARING_IMPAIRED True = ''.hi.en''"
    by (simp add: get_subtitle_suffix_def english_def)
  have c: "get_path (self\<lparr>subtitle_format := Some ''srt''\<rparr>) ''movie.mkv'' True None
     language_type_suffix language_format = ''movie.srt''"
    by (simp add: a root ext)
  have d: "get_path (self\<lparr>subtitle_format := Some ''srt'', language := english\<rparr>) ''movie.mkv''
     False None False ''alpha2'' = ''movie.en.srt''"
    by (simp add: a root ext en)
  have e: "get_path (self\<lparr>subtitle_format := Some ''srt'', language := english,
                   language_type := HEARING_IMPAIRED\<rparr>) ''movie.mkv'' False None
     True ''alpha2'' = ''movie.hi.en.srt''"
    by (simp add: a root ext hi)
  from a b c d e show ?thesis by blast
qed

text \<open>
  Claim C9 says that the constructor never raises, whatever the encoding argument. The
  handler around \<^verbatim>\<open>codecs.lookup\<close> catches \<^verbatim>\<open>TypeError\<close> and \<^verbatim>\<open>LookupError\<close>. An encoding
  name with an embedded NUL makes \<^verbatim>\<open>codecs.lookup\<close> raise \<^verbatim>\<open>ValueError\<close>, which the handler
  lets through: the constructor raises.
\<close>

theorem Subtitle_init_nul_encoding_raises:
  "Subtitle_init test_env pn lang sid hi fo lk (Some [CHR 0x00]) fm ra em gu = Inl ValueError"
  by (simp add: Subtitle_init_def test_env_sel test_codecs_lookup_def)

text \<open>
  Claim C10, amended. Once \<^verbatim>\<open>is_valid\<close> has returned, the verdict stays stored through
  every later method call and attribute assignment other than an assignment of
  \<^verbatim>\<open>content\<close> and \<^verbatim>\<open>clear_content\<close>: after any sequence of them, each of which returns or
  raises, \<^verbatim>\<open>is_valid\<close> returns the same verdict and leaves the object, its cached text
  included, as it is, also with \<^verbatim>\<open>auto_fix_srt\<close> set. So the text is rewritten by the auto-fix only in a check made while
  no verdict is stored: the first check after the construction, after an assignment of
  \<^verbatim>\<open>content\<close>, or after \<^verbatim>\<open>clear_content\<close>.
\<close>

theorem is_valid_cached:
  assumes "is_valid E auto_fix_first self = Some (Inr (b, s'))"
    and "list_all keeps_validity calls"
  shows "\<exists>s''. after_calls E calls s' = Some s'' \<and>
           priv_is_valid s'' = Some b \<and>
           is_valid E auto_fix_later s'' = Some (Inr (b, s''))"
proof -
  have "priv_is_valid s' = Some b"
    using assms(1) by (rule is_valid_stores_verdict)
  then obtain s'' where run: "after_calls E calls s' = Some s''"
    and kept: "priv_is_valid s'' = Some b"
    using after_calls_keep_validity [OF assms(2)] by blast
  have "is_valid E auto_fix_later s'' = Some (Inr (b, s''))"
    using kept by (rule is_valid_stored)
  with run kept show ?thesis by blast
qed

theorem is_valid_cached_witness:
  "is_valid test_env False loaded_subtitle = Some (Inr (True, validated_subtitle)) \<and>
   list_all keeps_validity [Call_text, Call_reencode ''latin-1'', Call_is_valid True] \<and>
   after_calls test_env [Call_text, Call_reencode ''latin-1'', Call_is_valid True]
       validated_subtitle =
     Some (validated_subtitle\<lparr>encoding := Some ''latin-1'', priv_content := Some srt_bytes\<rparr>) \<and>
   is_valid test_env True
       (validated_subtitle\<lparr>encoding := Some ''latin-1'', priv_content := Some srt_bytes\<rparr>) =
     Some (Inr (True,
       validated_subtitle\<lparr>encoding := Some ''latin-1'', priv_content := Some srt_bytes\<rparr>))"
proof -
  let ?calls = "[Call_text, Call_reencode ''latin-1'', Call_is_valid True]"
  let ?end = "validated_subtitle\<lparr>encoding := Some ''latin-1'', priv_content := Some srt_bytes\<rparr>"
  have keeps: "list_all keeps_validity ?calls"
    by simp
  have run: "after_calls test_env ?calls validated_subtitle = Some ?end"
    by (simp add: state_of_def text_prop_decoded reencode_def is_valid_def validated_fields
        srt_example_facts)
  from is_valid_cached [OF loaded_is_valid keeps, of True]
  have "is_valid test_env True ?end = Some (Inr (True, ?end))"
    using run by simp
  with loaded_is_valid keeps run show ?thesis by (intro conjI)
qed

text \<open>
  Claim C10 as stated does not hold. After \<^verbatim>\<open>is_valid()\<close> has returned \<^verbatim>\<open>True\<close> and the
  text is the decoded one, \<^verbatim>\<open>clear_content()\<close> leaves the content as it is and forgets the
  verdict; the next \<^verbatim>\<open>is_valid(auto_fix_srt=True)\<close> checks again and replaces the text by
  the recomposed one.
\<close>

theorem is_valid_after_clear_content_fixes_text:
  "is_valid test_env False loaded_subtitle = Some (Inr (True, validated_subtitle)) \<and>
   priv_text validated_subtitle = srt_text \<and>
   after_calls test_env [Call_clear_content] validated_subtitle =
     Some (clear_content validated_subtitle) \<and>
   content (clear_content validated_subtitle) = content loaded_subtitle \<and>
   is_valid test_env True (clear_content validated_subtitle) =
     Some (Inr (True, validated_subtitle\<lparr>priv_text := srt_text @ [0x0A]\<rparr>)) \<and>
   srt_text @ [0x0A] \<noteq> srt_text"
proof -
  have cleared: "text_prop test_env (clear_content validated_subtitle) =
      Inr (srt_text, (clear_content validated_subtitle)\<lparr>priv_is_decoded := True,
                                                           priv_text := srt_text\<rparr>)"
    by (simp add: text_prop_def decode_content_def content_def bytes_decode_replace_def
        clear_content_def validated_subtitle_def loaded_subtitle_def fresh_subtitle_def
        test_lookup_defs srt_example_facts)
  have fields: "priv_is_valid (clear_content validated_subtitle) = None"
    "subtitle_format (clear_content validated_subtitle) = Some ''srt''"
    by (simp_all add: clear_content_def validated_subtitle_def)
  have checked: "is_valid test_env True (clear_content validated_subtitle) =
     Some (Inr (True, (clear_content validated_subtitle)\<lparr>priv_is_decoded := True,
                        priv_text := srt_text @ [0x0A], priv_is_valid := Some True\<rparr>))"
    by (simp add: is_valid_def check_is_valid_def guess_format_block_def srt_block_def
        parse_srt_def cleared text_prop_decoded fields test_env_sel test_srt_compose_parse_def
        srt_example_facts)
  have "(clear_content validated_subtitle)\<lparr>priv_is_decoded := True,
            priv_text := srt_text @ [0x0A], priv_is_valid := Some True\<rparr> =
        validated_subtitle\<lparr>priv_text := srt_text @ [0x0A]\<rparr>"
    by (simp add: clear_content_def validated_subtitle_def)
  with checked have again: "is_valid test_env True (clear_content validated_subtitle) =
     Some (Inr (True, validated_subtitle\<lparr>priv_text := srt_text @ [0x0A]\<rparr>))"
    by simp
  have same: "content (clear_content validated_subtitle) = content loaded_subtitle"
    by (simp add: content_def clear_content_def validated_subtitle_def)
  have txt0: "priv_text validated_subtitle = srt_text"
    by (simp add: validated_subtitle_def)
  have run: "after_calls test_env [Call_clear_content] validated_subtitle =
     Some (clear_content validated_subtitle)"
    by simp
  from loaded_is_valid txt0 run same again show ?thesis by simp
qed

end
